theory Spec2Isabelle
  imports Complex_Main
begin

section \<open>Vehicle damage interpretation: data model\<close>

text \<open>
  The development embeds the class \<open>DamageDetector\<close> of \<open>detector.py\<close>: severity
  estimation, the repair-cost table, the construction of detections from the inference
  result, the pickup/return comparison and the annotation renderer.

  Python's unbounded integers are \<open>int\<close>. The numbers of the inference result (centre,
  width, height, confidence) and the damage ratio are Python floats; they are modelled as
  exact rationals, so \<open>a / b\<close> is the exact quotient and a literal such as \<open>0.05\<close> is the
  rational 5/100. The concrete evaluations below use inputs on which binary floating
  point gives the same results: the centre arithmetic is on values it represents exactly,
  and each ratio is either far from the thresholds or equal to one, where the correctly
  rounded quotient of the two integers is the very double the literal denotes.
\<close>

datatype py_error = ZeroDivisionError

text \<open>One entry of \<open>result['predictions']\<close>: a centre-form box with class and confidence.\<close>

record raw_prediction =
  pred_x :: rat
  pred_y :: rat
  pred_width :: rat
  pred_height :: rat
  pred_class :: string
  pred_confidence :: rat

text \<open>One dictionary of the list returned by \<open>detect_damages\<close>.\<close>

record detection =
  det_bbox :: "int \<times> int \<times> int \<times> int"
  det_confidence :: rat
  det_class :: string
  det_severity :: string
  det_estimated_cost :: int

text \<open>The dictionary returned by \<open>compare_images\<close> (the \<open>summary\<close> text is presentation only).\<close>

record comparison =
  pickup_damages :: "detection list"
  return_damages :: "detection list"
  new_damages :: "detection list"
  total_new_cost :: int

section \<open>Static tables\<close>

definition DAMAGE_CLASSES :: "string list" where
  "DAMAGE_CLASSES =
    [''bonnet-dent'', ''doorouter-dent'', ''doorouter-paint-trace'', ''doorouter-scratch'',
     ''fender-dent'', ''front-bumper-dent'', ''front-bumper-scratch'', ''Front-Windscreen-Damage'',
     ''Headlight-Damage'', ''Major-Rear-Bumper-Dent'', ''medium-Bodypanel-Dent'', ''paint-chip'',
     ''paint-trace'', ''pillar-dent'', ''quaterpanel-dent'', ''rear-bumper-dent'',
     ''rear-bumper-scratch'', ''Rear-windscreen-Damage'', ''roof-dent'', ''RunningBoard-Dent'',
     ''Sidemirror-Damage'', ''Signlight-Damage'', ''Taillight-Damage'']"

definition cost_row :: "int \<Rightarrow> int \<Rightarrow> int \<Rightarrow> (string \<times> int) list" where
  "cost_row a b c = [(''minor'', a), (''moderate'', b), (''severe'', c)]"

definition REPAIR_COSTS :: "(string \<times> (string \<times> int) list) list" where
  "REPAIR_COSTS =
    [(''bonnet-dent'', cost_row 150 400 800),
     (''doorouter-dent'', cost_row 100 350 700),
     (''fender-dent'', cost_row 120 380 750),
     (''front-bumper-dent'', cost_row 100 300 600),
     (''pillar-dent'', cost_row 200 500 1000),
     (''quaterpanel-dent'', cost_row 150 400 800),
     (''rear-bumper-dent'', cost_row 100 300 600),
     (''roof-dent'', cost_row 200 600 1200),
     (''medium-Bodypanel-Dent'', cost_row 150 400 900),
     (''Major-Rear-Bumper-Dent'', cost_row 300 700 1500),
     (''RunningBoard-Dent'', cost_row 80 250 500),
     (''doorouter-scratch'', cost_row 50 150 400),
     (''front-bumper-scratch'', cost_row 50 150 350),
     (''rear-bumper-scratch'', cost_row 50 150 350),
     (''doorouter-paint-trace'', cost_row 60 180 450),
     (''paint-chip'', cost_row 40 120 300),
     (''paint-trace'', cost_row 50 150 400),
     (''Front-Windscreen-Damage'', cost_row 200 500 1000),
     (''Rear-windscreen-Damage'', cost_row 200 500 1000),
     (''Headlight-Damage'', cost_row 150 400 800),
     (''Taillight-Damage'', cost_row 100 300 600),
     (''Signlight-Damage'', cost_row 80 200 400),
     (''Sidemirror-Damage'', cost_row 100 300 600)]"

text \<open>\<open>d.get(k, default)\<close> on a dictionary given as an association list.\<close>

definition dict_get :: "('k \<times> 'v) list \<Rightarrow> 'k \<Rightarrow> 'v \<Rightarrow> 'v" where
  "dict_get d k dflt = (case map_of d k of None \<Rightarrow> dflt | Some v \<Rightarrow> v)"

text \<open>\<open>self.REPAIR_COSTS.get(class_name, {}).get(severity, 100)\<close>.\<close>

definition repair_cost :: "string \<Rightarrow> string \<Rightarrow> int" where
  "repair_cost class_name severity = dict_get (dict_get REPAIR_COSTS class_name []) severity 100"

section \<open>Severity estimation\<close>

definition critical_types :: "string list" where
  "critical_types =
    [''Major-Rear-Bumper-Dent'', ''Front-Windscreen-Damage'', ''Rear-windscreen-Damage'']"

text \<open>
  \<open>_estimate_severity\<close>. The true division \<open>bbox_area / img_area\<close> raises
  \<open>ZeroDivisionError\<close> when the image area is zero.
\<close>

definition estimate_severity ::
  "int \<Rightarrow> int \<Rightarrow> int \<Rightarrow> int \<Rightarrow> string \<Rightarrow> int \<times> int \<Rightarrow> py_error + string" where
  "estimate_severity x1 y1 x2 y2 damage_class img_shape =
    (case img_shape of (h, w) \<Rightarrow>
      let bbox_area = (x2 - x1) * (y2 - y1);
          img_area = h * w
      in if img_area = 0 then Inl ZeroDivisionError
         else
           let damage_ratio = (of_int bbox_area / of_int img_area :: rat)
           in if damage_class \<in> set critical_types then
                (if damage_ratio > 0.05 then Inr ''severe''
                 else if damage_ratio > 0.02 then Inr ''moderate''
                 else Inr ''minor'')
              else if damage_ratio > 0.08 then Inr ''severe''
              else if damage_ratio > 0.03 then Inr ''moderate''
              else Inr ''minor'')"

section \<open>Building detections\<close>

text \<open>Python's \<open>int(f)\<close> on a float: the fractional part is discarded.\<close>

definition py_int :: "rat \<Rightarrow> int" where
  "py_int q = (if q < 0 then - \<lfloor>- q\<rfloor> else \<lfloor>q\<rfloor>)"

text \<open>The body of the loop over \<open>result['predictions']\<close>.\<close>

definition build_detection :: "int \<times> int \<Rightarrow> raw_prediction \<Rightarrow> py_error + detection" where
  "build_detection img_shape pred =
    (let x_center = pred_x pred; y_center = pred_y pred;
         width = pred_width pred; height = pred_height pred;
         x1 = py_int (x_center - width / 2);
         y1 = py_int (y_center - height / 2);
         x2 = py_int (x_center + width / 2);
         y2 = py_int (y_center + height / 2);
         class_name = pred_class pred;
         confidence = pred_confidence pred
     in case estimate_severity x1 y1 x2 y2 class_name img_shape of
          Inl e \<Rightarrow> Inl e
        | Inr severity \<Rightarrow>
            Inr \<lparr>det_bbox = (x1, y1, x2, y2), det_confidence = confidence,
                 det_class = class_name, det_severity = severity,
                 det_estimated_cost = repair_cost class_name severity\<rparr>)"

fun detect_loop ::
  "int \<times> int \<Rightarrow> raw_prediction list \<Rightarrow> detection list \<Rightarrow> py_error + detection list" where
  "detect_loop img_shape [] detections = Inr detections"
| "detect_loop img_shape (pred # preds) detections =
     (case build_detection img_shape pred of
        Inl e \<Rightarrow> Inl e
      | Inr d \<Rightarrow> detect_loop img_shape preds (detections @ [d]))"

text \<open>
  \<open>detect_damages\<close>, from the inference result on: \<open>img_shape\<close> is \<open>(h, w)\<close> of the
  image and \<open>result\<close> is \<open>None\<close> when the response has no \<open>predictions\<close> key.
\<close>

definition detect_damages ::
  "int \<times> int \<Rightarrow> raw_prediction list option \<Rightarrow> py_error + detection list" where
  "detect_damages img_shape result =
    (case result of
       None \<Rightarrow> Inr []
     | Some predictions \<Rightarrow> detect_loop img_shape predictions [])"

text \<open>\<open>sum(d['estimated_cost'] for d in detections)\<close>, as the API and UI layers compute it.\<close>

definition total_estimated_cost :: "detection list \<Rightarrow> int" where
  "total_estimated_cost detections = sum_list (map det_estimated_cost detections)"

section \<open>Pickup/return comparison\<close>

text \<open>The part of \<open>compare_images\<close> after the two detection calls.\<close>

definition compare_detections :: "detection list \<Rightarrow> detection list \<Rightarrow> comparison" where
  "compare_detections pickup return =
    (let pickup_classes = map det_class pickup;
         new = filter (\<lambda>d. det_class d \<notin> set pickup_classes \<or>
                   count_list pickup_classes (det_class d)
                     < count_list (map det_class return) (det_class d)) return
     in \<lparr>pickup_damages = pickup, return_damages = return, new_damages = new,
         total_new_cost = sum_list (map det_estimated_cost new)\<rparr>)"

definition compare_images ::
  "int \<times> int \<Rightarrow> raw_prediction list option \<Rightarrow> int \<times> int \<Rightarrow> raw_prediction list option
     \<Rightarrow> py_error + comparison" where
  "compare_images pickup_shape pickup_result return_shape return_result =
    (case detect_damages pickup_shape pickup_result of
       Inl e \<Rightarrow> Inl e
     | Inr pickup \<Rightarrow>
         (case detect_damages return_shape return_result of
            Inl e \<Rightarrow> Inl e
          | Inr return \<Rightarrow> Inr (compare_detections pickup return)))"

section \<open>Annotation rendering\<close>

text \<open>
  A PIL image is a mutable object. The store is the list of pixel buffers of the live
  images and an image is a reference into it (an index); \<open>image.copy()\<close> allocates a new
  buffer at the end of the store. The drawing primitives of \<open>ImageDraw\<close> and the
  \<open>:.1f\<close> float formatting belong to the libraries, so they are parameters: each
  primitive maps the buffer of the image the \<open>Draw\<close> object was made for to its new
  contents. The arguments of \<open>draw_rectangle\<close> are the corners, \<open>outline\<close>, \<open>fill\<close> and
  \<open>width\<close> (\<open>None\<close> when the call does not pass them); those of \<open>draw_text\<close> are the
  position, the text and \<open>fill\<close> (the font only selects glyphs).
\<close>

record 'img pil =
  draw_rectangle ::
    "'img \<Rightarrow> int \<times> int \<times> int \<times> int \<Rightarrow> string option \<Rightarrow> string option \<Rightarrow> int option \<Rightarrow> 'img"
  draw_text :: "'img \<Rightarrow> int \<times> int \<Rightarrow> string \<Rightarrow> string \<Rightarrow> 'img"
  format_1f :: "rat \<Rightarrow> string"

definition default_color_map :: "(string \<times> string) list" where
  "default_color_map = [(''minor'', ''yellow''), (''moderate'', ''orange''), (''severe'', ''red'')]"

text \<open>The body of the loop over \<open>detections\<close>, on the buffer of \<open>img_copy\<close>.\<close>

definition draw_one :: "'img pil \<Rightarrow> (string \<times> string) list \<Rightarrow> 'img \<Rightarrow> detection \<Rightarrow> 'img" where
  "draw_one lib color_map img det =
    (case det_bbox det of (x1, y1, x2, y2) \<Rightarrow>
      let severity = det_severity det;
          class_name = det_class det;
          confidence = det_confidence det;
          color = dict_get color_map severity ''red'';
          img1 = draw_rectangle lib img (x1, y1, x2, y2) (Some color) None (Some 3);
          label = class_name @ '' ('' @ format_1f lib (confidence * 100) @ ''%)'';
          img2 = draw_rectangle lib img1 (x1, y1 - 25, x1 + int (length label) * 10, y1)
                   None (Some color) None
      in draw_text lib img2 (x1 + 5, y1 - 22) label ''white'')"

text \<open>
  \<open>draw_detections\<close>, with \<open>img\<close> the reference of the argument \<open>image\<close>: returns the
  reference of the annotated copy and the new store.
\<close>

definition draw_detections ::
  "'img pil \<Rightarrow> 'img list \<Rightarrow> nat \<Rightarrow> detection list \<Rightarrow> (string \<times> string) list option
     \<Rightarrow> nat \<times> 'img list" where
  "draw_detections lib store img detections color_map =
    (let cm = (case color_map of None \<Rightarrow> default_color_map | Some m \<Rightarrow> m);
         img_copy = length store;
         store1 = store @ [store ! img];
         store2 = foldl (\<lambda>s det. s[img_copy := draw_one lib cm (s ! img_copy) det])
                    store1 detections
     in (img_copy, store2))"

section \<open>Notions of the specification\<close>

text \<open>The damage ratio: bounding-box area divided by image area.\<close>

definition damage_ratio :: "int \<Rightarrow> int \<Rightarrow> int \<Rightarrow> int \<Rightarrow> int \<times> int \<Rightarrow> rat" where
  "damage_ratio x1 y1 x2 y2 img_shape =
     of_int ((x2 - x1) * (y2 - y1)) / of_int (fst img_shape * snd img_shape)"

text \<open>
  \<open>truncates v n\<close>: the integer \<open>n\<close> is \<open>v\<close> with its fractional part discarded
  (rounding toward zero).
\<close>

definition truncates :: "rat \<Rightarrow> int \<Rightarrow> bool" where
  "truncates v n \<longleftrightarrow>
     \<bar>of_int n\<bar> \<le> \<bar>v\<bar> \<and> \<bar>v\<bar> < \<bar>of_int n\<bar> + 1 \<and> (0 \<le> v \<longrightarrow> 0 \<le> n) \<and> (v \<le> 0 \<longrightarrow> n \<le> 0)"

text \<open>
  The reading of the comparison policy as "only the excess is new": walking the return
  list, a detection is matched against a still unmatched pickup detection of its class if
  there is one, and is new otherwise.
\<close>

fun excess_only :: "string list \<Rightarrow> detection list \<Rightarrow> detection list" where
  "excess_only unmatched [] = []"
| "excess_only unmatched (d # ds) =
     (if det_class d \<in> set unmatched then excess_only (remove1 (det_class d) unmatched) ds
      else d # excess_only unmatched ds)"

section \<open>Auxiliary facts\<close>

subsection \<open>Truncation\<close>


text \<open>Truncation determines the integer, so \<open>truncates\<close> specifies \<open>py_int\<close> completely.\<close>

lemma truncates_unique: "truncates v n \<Longrightarrow> truncates v m \<Longrightarrow> n = m"
  unfolding truncates_def
  by (auto simp: abs_if split: if_splits)

subsection \<open>Severity\<close>





subsection \<open>The detection loop\<close>






subsection \<open>The comparison filter\<close>

text \<open>
  On the return list the first disjunct of the filter is subsumed by the second: a
  return-side detection has a positive count in the return list.
\<close>

lemma new_damages_filter:
  "new_damages (compare_detections pickup return) =
     filter (\<lambda>d. count_list (map det_class pickup) (det_class d)
                  < count_list (map det_class return) (det_class d)) return"
proof -
  have "(det_class d \<notin> set (map det_class pickup) \<or>
          count_list (map det_class pickup) (det_class d)
            < count_list (map det_class return) (det_class d)) \<longleftrightarrow>
        count_list (map det_class pickup) (det_class d)
            < count_list (map det_class return) (det_class d)"
    if "d \<in> set return" for d
  proof -
    from that have "det_class d \<in> set (map det_class return)" by simp
    then have "0 < count_list (map det_class return) (det_class d)"
      by (simp only: count_list_0_iff zero_less_iff_neq_zero not_not)
    moreover have "det_class d \<notin> set (map det_class pickup) \<Longrightarrow>
        count_list (map det_class pickup) (det_class d) = 0"
      by (simp add: count_list_0_iff)
    ultimately show ?thesis by auto
  qed
  then show ?thesis
    unfolding compare_detections_def Let_def
    by (simp cong: filter_cong)
qed

lemma new_damages_of_class:
  "filter (\<lambda>d. det_class d = C) (new_damages (compare_detections pickup return)) =
     (if count_list (map det_class pickup) C < count_list (map det_class return) C
      then filter (\<lambda>d. det_class d = C) return else [])"
proof -
  have "filter (\<lambda>d. det_class d = C) (new_damages (compare_detections pickup return)) =
     filter (\<lambda>d. det_class d = C \<and> count_list (map det_class pickup) C
                  < count_list (map det_class return) C) return"
    unfolding new_damages_filter filter_filter
    by (rule filter_cong) auto
  then show ?thesis by (simp add: conj_commute)
qed

subsection \<open>The drawing loop\<close>

lemma foldl_draw_length:
  "length (foldl (\<lambda>s det. s[k := f (s ! k) det]) st dets) = length st"
  by (induction dets arbitrary: st) simp_all

lemma foldl_draw_other:
  "i \<noteq> k \<Longrightarrow> foldl (\<lambda>s det. s[k := f (s ! k) det]) st dets ! i = st ! i"
  by (induction dets arbitrary: st) simp_all

subsection \<open>The cost table\<close>

lemma repair_cost_absent:
  assumes "c \<notin> fst ` set REPAIR_COSTS"
  shows "repair_cost c s = 100"
proof -
  from assms have "map_of REPAIR_COSTS c = None"
    by (simp add: map_of_eq_None_iff)
  then show ?thesis
    by (simp add: repair_cost_def dict_get_def)
qed

lemma repair_cost_table:
  "list_all (\<lambda>c. list_all (\<lambda>s. case map_of REPAIR_COSTS c of None \<Rightarrow> False
        | Some row \<Rightarrow> map_of row s = Some (repair_cost c s)) [''minor'', ''moderate'', ''severe''])
     DAMAGE_CLASSES"
  by code_simp

lemma damage_classes_keys: "set DAMAGE_CLASSES = fst ` set REPAIR_COSTS"
proof -
  have "list_all (\<lambda>c. c \<in> set (map fst REPAIR_COSTS)) DAMAGE_CLASSES" by code_simp
  moreover have "list_all (\<lambda>c. c \<in> set DAMAGE_CLASSES) (map fst REPAIR_COSTS)" by code_simp
  ultimately show ?thesis by (auto simp: list_all_iff)
qed

lemma damage_classes_23: "length DAMAGE_CLASSES = 23 \<and> distinct DAMAGE_CLASSES"
  by code_simp

section \<open>Severity thresholds\<close>






section \<open>Cost lookup\<close>

text \<open>
  Claim C4. There are 23 defined classes, all distinct, and they are exactly the keys of
  the cost table. For each of them and each of the severities minor, moderate and severe
  the estimated cost is the entry of the table; for a class that is not a key of the
  table the cost is 100 whatever the severity. The lookup is a total function: it has no
  failing branch.
\<close>

theorem repair_cost_lookup:
  "length DAMAGE_CLASSES = 23 \<and> distinct DAMAGE_CLASSES \<and>
   set DAMAGE_CLASSES = fst ` set REPAIR_COSTS \<and>
   (\<forall>c \<in> set DAMAGE_CLASSES. \<forall>s \<in> {''minor'', ''moderate'', ''severe''}.
      \<exists>row. map_of REPAIR_COSTS c = Some row \<and> map_of row s = Some (repair_cost c s)) \<and>
   (\<forall>c s. c \<notin> fst ` set REPAIR_COSTS \<longrightarrow> repair_cost c s = 100)"
proof -
  have "\<exists>row. map_of REPAIR_COSTS c = Some row \<and> map_of row s = Some (repair_cost c s)"
    if c: "c \<in> set DAMAGE_CLASSES" and s: "s \<in> {''minor'', ''moderate'', ''severe''}" for c s
  proof -
    from s have s': "s \<in> set [''minor'', ''moderate'', ''severe'']" by simp
    from repair_cost_table c s'
    have "case map_of REPAIR_COSTS c of None \<Rightarrow> False
          | Some row \<Rightarrow> map_of row s = Some (repair_cost c s)"
      unfolding list_all_iff by blast
    then show ?thesis by (cases "map_of REPAIR_COSTS c") simp_all
  qed
  with damage_classes_23 damage_classes_keys repair_cost_absent show ?thesis by blast
qed

theorem repair_cost_lookup_witness:
  "''front-bumper-dent'' \<in> set DAMAGE_CLASSES \<and>
   ''severe'' \<in> {''minor'', ''moderate'', ''severe''} \<and>
   map_of REPAIR_COSTS ''front-bumper-dent'' = Some (cost_row 100 300 600) \<and>
   repair_cost ''front-bumper-dent'' ''severe'' = 600 \<and>
   ''hood-scratch'' \<notin> fst ` set REPAIR_COSTS \<and> repair_cost ''hood-scratch'' ''severe'' = 100"
proof -
  have c: "''front-bumper-dent'' \<in> set DAMAGE_CLASSES" by (simp add: DAMAGE_CLASSES_def)
  have s: "''severe'' \<in> {''minor'', ''moderate'', ''severe''}" by simp
  have row: "map_of REPAIR_COSTS ''front-bumper-dent'' = Some (cost_row 100 300 600)"
    by (simp add: REPAIR_COSTS_def)
  have a: "''hood-scratch'' \<notin> fst ` set REPAIR_COSTS" by (simp add: REPAIR_COSTS_def)
  from repair_cost_lookup c s obtain r where
    "map_of REPAIR_COSTS ''front-bumper-dent'' = Some r \<and>
     map_of r ''severe'' = Some (repair_cost ''front-bumper-dent'' ''severe'')"
    by blast
  with row have "repair_cost ''front-bumper-dent'' ''severe'' = 600"
    by (simp add: cost_row_def)
  moreover from repair_cost_lookup a have "repair_cost ''hood-scratch'' ''severe'' = 100"
    by blast
  ultimately show ?thesis using c s row a by blast
qed

section \<open>Detections from predictions\<close>






text \<open>
  Claim C8. An inference result without a \<open>predictions\<close> field and one whose list of
  predictions is empty both give the empty list of detections, without an error, on
  every image shape; the total estimated cost of the empty list is 0.
\<close>

theorem empty_detections_valid:
  "detect_damages img_shape None = Inr [] \<and> detect_damages img_shape (Some []) = Inr [] \<and>
   total_estimated_cost [] = 0"
  by (simp add: detect_damages_def total_estimated_cost_def)

text \<open>
  Claim C6. On a 640 by 480 image (height 480, width 640), a prediction of class
  front-bumper-dent centred at (200, 200) with width and height 100 gives the single
  detection with box (150, 150, 250, 250), severity moderate and cost 300; the box area is
  10000, the image area 307200 and the ratio 25/768, which lies between 0.0325 and 0.0326.
\<close>

theorem scenario_front_bumper_dent:
  "detect_damages (480, 640)
     (Some [\<lparr>pred_x = 200, pred_y = 200, pred_width = 100, pred_height = 100,
             pred_class = ''front-bumper-dent'', pred_confidence = conf\<rparr>])
   = Inr [\<lparr>det_bbox = (150, 150, 250, 250), det_confidence = conf,
            det_class = ''front-bumper-dent'', det_severity = ''moderate'',
            det_estimated_cost = 300\<rparr>] \<and>
   (250 - 150) * (250 - 150) = (10000 :: int) \<and> 480 * 640 = (307200 :: int) \<and>
   damage_ratio 150 150 250 250 (480, 640) = 25 / 768 \<and>
   0.0325 < damage_ratio 150 150 250 250 (480, 640) \<and>
   damage_ratio 150 150 250 250 (480, 640) < 0.0326 \<and>
   map_of REPAIR_COSTS ''front-bumper-dent'' = Some (cost_row 100 300 600)"
proof -
  have 1: "detect_damages (480, 640)
     (Some [\<lparr>pred_x = 200, pred_y = 200, pred_width = 100, pred_height = 100,
             pred_class = ''front-bumper-dent'', pred_confidence = conf\<rparr>])
   = Inr [\<lparr>det_bbox = (150, 150, 250, 250), det_confidence = conf,
            det_class = ''front-bumper-dent'', det_severity = ''moderate'',
            det_estimated_cost = 300\<rparr>]"
    by (simp add: detect_damages_def build_detection_def py_int_def estimate_severity_def
      critical_types_def repair_cost_def dict_get_def REPAIR_COSTS_def cost_row_def Let_def)
  have 2: "damage_ratio 150 150 250 250 (480, 640) = 25 / 768"
    by (simp add: damage_ratio_def)
  have 3: "map_of REPAIR_COSTS ''front-bumper-dent'' = Some (cost_row 100 300 600)"
    by (simp add: REPAIR_COSTS_def)
  show ?thesis unfolding 1 2 3 by simp
qed

section \<open>New damages of a comparison\<close>

text \<open>
  Claim C1, as the code has it. The claim reads the policy as "only the excess is new":
  with one pickup detection of a class and two return detections of it, only the second
  return detection would be new. The filter of the code tests the two class counts, which
  are the same for every detection of the class, so it keeps both return detections.
\<close>

theorem compare_excess_only_counterexample:
  "new_damages (compare_detections
      [\<lparr>det_bbox = (10, 10, 50, 50), det_confidence = 0.9, det_class = ''paint-chip'',
         det_severity = ''minor'', det_estimated_cost = 40\<rparr>]
      [\<lparr>det_bbox = (12, 11, 52, 49), det_confidence = 0.8, det_class = ''paint-chip'',
         det_severity = ''minor'', det_estimated_cost = 40\<rparr>,
       \<lparr>det_bbox = (200, 100, 260, 150), det_confidence = 0.7, det_class = ''paint-chip'',
         det_severity = ''minor'', det_estimated_cost = 40\<rparr>])
   = [\<lparr>det_bbox = (12, 11, 52, 49), det_confidence = 0.8, det_class = ''paint-chip'',
        det_severity = ''minor'', det_estimated_cost = 40\<rparr>,
      \<lparr>det_bbox = (200, 100, 260, 150), det_confidence = 0.7, det_class = ''paint-chip'',
        det_severity = ''minor'', det_estimated_cost = 40\<rparr>] \<and>
   excess_only [''paint-chip'']
      [\<lparr>det_bbox = (12, 11, 52, 49), det_confidence = 0.8, det_class = ''paint-chip'',
         det_severity = ''minor'', det_estimated_cost = 40\<rparr>,
       \<lparr>det_bbox = (200, 100, 260, 150), det_confidence = 0.7, det_class = ''paint-chip'',
         det_severity = ''minor'', det_estimated_cost = 40\<rparr>]
   = [\<lparr>det_bbox = (200, 100, 260, 150), det_confidence = 0.7, det_class = ''paint-chip'',
        det_severity = ''minor'', det_estimated_cost = 40\<rparr>] \<and>
   new_damages (compare_detections
      [\<lparr>det_bbox = (10, 10, 50, 50), det_confidence = 0.9, det_class = ''paint-chip'',
         det_severity = ''minor'', det_estimated_cost = 40\<rparr>]
      [\<lparr>det_bbox = (12, 11, 52, 49), det_confidence = 0.8, det_class = ''paint-chip'',
         det_severity = ''minor'', det_estimated_cost = 40\<rparr>,
       \<lparr>det_bbox = (200, 100, 260, 150), det_confidence = 0.7, det_class = ''paint-chip'',
         det_severity = ''minor'', det_estimated_cost = 40\<rparr>])
   \<noteq> [\<lparr>det_bbox = (200, 100, 260, 150), det_confidence = 0.7, det_class = ''paint-chip'',
        det_severity = ''minor'', det_estimated_cost = 40\<rparr>]"
  by (simp add: compare_detections_def Let_def)

text \<open>
  Claim C1, amended. \<open>compare\<close> classifies return-side detections class by class, all or
  nothing: for every pickup list and return list, and for each class C with p occurrences
  in pickup and r occurrences in return, if r exceeds p then all r return-side detections
  of C are in \<open>new_damages\<close>, in return-list order, and otherwise none is; so
  \<open>new_damages\<close> is the return list restricted to the classes whose count grew, and
  \<open>total_new_cost\<close> is the sum of its costs. In particular pickup=[A] and return=[A,A]
  yields both return-side detections.
\<close>

theorem compare_new_by_class_count:
  "new_damages (compare_detections pickup return) =
     filter (\<lambda>d. count_list (map det_class pickup) (det_class d)
                  < count_list (map det_class return) (det_class d)) return \<and>
   filter (\<lambda>d. det_class d = C) (new_damages (compare_detections pickup return)) =
     (if count_list (map det_class pickup) C < count_list (map det_class return) C
      then filter (\<lambda>d. det_class d = C) return else []) \<and>
   total_new_cost (compare_detections pickup return) =
     sum_list (map det_estimated_cost (new_damages (compare_detections pickup return)))"
proof -
  have "total_new_cost (compare_detections pickup return) =
     sum_list (map det_estimated_cost (new_damages (compare_detections pickup return)))"
    by (simp add: compare_detections_def Let_def)
  with new_damages_filter[of pickup return] new_damages_of_class[of C pickup return]
  show ?thesis by (intro conjI)
qed

theorem compare_new_by_class_count_witness:
  "filter (\<lambda>d. det_class d = ''paint-chip'')
     (new_damages (compare_detections
        [\<lparr>det_bbox = (10, 10, 50, 50), det_confidence = 0.9, det_class = ''paint-chip'',
           det_severity = ''minor'', det_estimated_cost = 40\<rparr>]
        [\<lparr>det_bbox = (12, 11, 52, 49), det_confidence = 0.8, det_class = ''paint-chip'',
           det_severity = ''minor'', det_estimated_cost = 40\<rparr>,
         \<lparr>det_bbox = (300, 300, 400, 400), det_confidence = 0.6, det_class = ''roof-dent'',
           det_severity = ''minor'', det_estimated_cost = 200\<rparr>,
         \<lparr>det_bbox = (200, 100, 260, 150), det_confidence = 0.7, det_class = ''paint-chip'',
           det_severity = ''minor'', det_estimated_cost = 40\<rparr>]))
   = [\<lparr>det_bbox = (12, 11, 52, 49), det_confidence = 0.8, det_class = ''paint-chip'',
        det_severity = ''minor'', det_estimated_cost = 40\<rparr>,
      \<lparr>det_bbox = (200, 100, 260, 150), det_confidence = 0.7, det_class = ''paint-chip'',
        det_severity = ''minor'', det_estimated_cost = 40\<rparr>]"
  using compare_new_by_class_count[of
        "[\<lparr>det_bbox = (10, 10, 50, 50), det_confidence = 0.9, det_class = ''paint-chip'',
           det_severity = ''minor'', det_estimated_cost = 40\<rparr>]"
        "[\<lparr>det_bbox = (12, 11, 52, 49), det_confidence = 0.8, det_class = ''paint-chip'',
           det_severity = ''minor'', det_estimated_cost = 40\<rparr>,
         \<lparr>det_bbox = (300, 300, 400, 400), det_confidence = 0.6, det_class = ''roof-dent'',
           det_severity = ''minor'', det_estimated_cost = 200\<rparr>,
         \<lparr>det_bbox = (200, 100, 260, 150), det_confidence = 0.7, det_class = ''paint-chip'',
           det_severity = ''minor'', det_estimated_cost = 40\<rparr>]"
        "''paint-chip''"]
  by simp

text \<open>
  Claim C5. For every pickup list, return list and class C: if C occurs in the return
  list at most as often as in the pickup list, no detection of class C is in
  \<open>new_damages\<close>; if C does not occur in the pickup list, every return-side detection of
  C is in \<open>new_damages\<close>. So pickup=[A,A], return=[A] gives no new damage and pickup=[],
  return=[B] gives [B].
\<close>

theorem compare_no_underreport:
  "(count_list (map det_class return) C \<le> count_list (map det_class pickup) C \<longrightarrow>
      (\<forall>d \<in> set (new_damages (compare_detections pickup return)). det_class d \<noteq> C)) \<and>
   (C \<notin> set (map det_class pickup) \<longrightarrow>
      filter (\<lambda>d. det_class d = C) (new_damages (compare_detections pickup return)) =
      filter (\<lambda>d. det_class d = C) return)"
proof (intro conjI impI)
  assume le: "count_list (map det_class return) C \<le> count_list (map det_class pickup) C"
  show "\<forall>d \<in> set (new_damages (compare_detections pickup return)). det_class d \<noteq> C"
    unfolding new_damages_filter using le by auto
next
  assume "C \<notin> set (map det_class pickup)"
  then have z: "count_list (map det_class pickup) C = 0"
    by (simp add: count_list_0_iff)
  show "filter (\<lambda>d. det_class d = C) (new_damages (compare_detections pickup return)) =
      filter (\<lambda>d. det_class d = C) return"
  proof (cases "count_list (map det_class return) C = 0")
    case True
    then have "C \<notin> set (map det_class return)" by (simp add: count_list_0_iff)
    then have "filter (\<lambda>d. det_class d = C) return = []"
      by (auto simp: filter_empty_conv)
    with True z show ?thesis unfolding new_damages_of_class by simp
  next
    case False
    with z show ?thesis unfolding new_damages_of_class by simp
  qed
qed

theorem compare_no_underreport_witness:
  "new_damages (compare_detections
      [\<lparr>det_bbox = (10, 10, 50, 50), det_confidence = 0.9, det_class = ''paint-chip'',
         det_severity = ''minor'', det_estimated_cost = 40\<rparr>,
       \<lparr>det_bbox = (200, 100, 260, 150), det_confidence = 0.7, det_class = ''paint-chip'',
         det_severity = ''minor'', det_estimated_cost = 40\<rparr>]
      [\<lparr>det_bbox = (12, 11, 52, 49), det_confidence = 0.8, det_class = ''paint-chip'',
         det_severity = ''minor'', det_estimated_cost = 40\<rparr>]) = [] \<and>
   new_damages (compare_detections []
      [\<lparr>det_bbox = (300, 300, 400, 400), det_confidence = 0.6, det_class = ''roof-dent'',
         det_severity = ''minor'', det_estimated_cost = 200\<rparr>])
   = [\<lparr>det_bbox = (300, 300, 400, 400), det_confidence = 0.6, det_class = ''roof-dent'',
        det_severity = ''minor'', det_estimated_cost = 200\<rparr>]"
proof -
  define A1 where "A1 = \<lparr>det_bbox = (10, 10, 50, 50), det_confidence = 0.9,
      det_class = ''paint-chip'', det_severity = ''minor'', det_estimated_cost = 40\<rparr>"
  define A2 where "A2 = \<lparr>det_bbox = (200, 100, 260, 150), det_confidence = 0.7,
      det_class = ''paint-chip'', det_severity = ''minor'', det_estimated_cost = 40\<rparr>"
  define A3 where "A3 = \<lparr>det_bbox = (12, 11, 52, 49), det_confidence = 0.8,
      det_class = ''paint-chip'', det_severity = ''minor'', det_estimated_cost = 40\<rparr>"
  define B where "B = \<lparr>det_bbox = (300, 300, 400, 400), det_confidence = 0.6,
      det_class = ''roof-dent'', det_severity = ''minor'', det_estimated_cost = 200\<rparr>"
  have cls: "det_class A1 = ''paint-chip''" "det_class A2 = ''paint-chip''"
    "det_class A3 = ''paint-chip''" "det_class B = ''roof-dent''"
    by (simp_all add: A1_def A2_def A3_def B_def)
  have le: "count_list (map det_class [A3]) ''paint-chip''
      \<le> count_list (map det_class [A1, A2]) ''paint-chip''"
    by (simp add: cls)
  have absent: "''roof-dent'' \<notin> set (map det_class [])" by simp
  from compare_no_underreport[of "[A3]" "''paint-chip''" "[A1, A2]"] le
  have none: "\<forall>d \<in> set (new_damages (compare_detections [A1, A2] [A3])).
      det_class d \<noteq> ''paint-chip''"
    by blast
  have sub: "set (new_damages (compare_detections [A1, A2] [A3])) \<subseteq> {A3}"
    by (auto simp: compare_detections_def Let_def)
  from none sub cls(3) have 1: "new_damages (compare_detections [A1, A2] [A3]) = []"
    by (cases "new_damages (compare_detections [A1, A2] [A3])") auto
  from compare_no_underreport[of "[B]" "''roof-dent''" "[]"] absent
  have "filter (\<lambda>d. det_class d = ''roof-dent'') (new_damages (compare_detections [] [B]))
      = filter (\<lambda>d. det_class d = ''roof-dent'') [B]"
    by blast
  moreover have "set (new_damages (compare_detections [] [B])) \<subseteq> {B}"
    by (auto simp: compare_detections_def Let_def)
  then have "filter (\<lambda>d. det_class d = ''roof-dent'') (new_damages (compare_detections [] [B]))
      = new_damages (compare_detections [] [B])"
    by (intro filter_True) (auto simp: cls)
  ultimately have 2: "new_damages (compare_detections [] [B]) = [B]"
    by (simp add: cls)
  from 1 2 show ?thesis unfolding A1_def A2_def A3_def B_def by blast
qed

section \<open>Rendering leaves its input alone\<close>

text \<open>
  Claim C7. \<open>draw_detections\<close> never mutates its input: the returned image is a new
  object, and every image that existed before the call, the input among them, has the
  pixels it had, whatever the detections, the colour map and the drawing primitives. With
  an empty detection list the returned image is pixel-identical to the input; so
  rendering the output of a rendering with an empty list returns a pixel-identical copy
  of that output and leaves it and the original input unchanged.
\<close>

theorem draw_detections_preserves_input:
  assumes "img < length store"
  shows "fst (draw_detections lib store img detections color_map) \<noteq> img \<and>
     (\<forall>i < length store.
        snd (draw_detections lib store img detections color_map) ! i = store ! i) \<and>
     snd (draw_detections lib store img [] color_map)
         ! fst (draw_detections lib store img [] color_map)
       = store ! img \<and>
     (let (out, store') = draw_detections lib store img detections color_map;
          (out2, store'') = draw_detections lib store' out [] color_map2
      in store'' ! out2 = store' ! out \<and> store'' ! out = store' ! out \<and>
         store'' ! img = store ! img)"
proof -
  have 1: "fst (draw_detections lib store img detections color_map) \<noteq> img"
    using assms by (simp add: draw_detections_def Let_def)
  have 2: "snd (draw_detections lib store img detections color_map) ! i = store ! i"
    if "i < length store" for i
    using that by (simp add: draw_detections_def Let_def foldl_draw_other nth_append)
  have 3: "snd (draw_detections lib st r [] cm) ! fst (draw_detections lib st r [] cm) = st ! r"
    for st :: "'a list" and r cm
    by (simp add: draw_detections_def Let_def)
  have len: "length (snd (draw_detections lib store img detections color_map))
      = Suc (length store)"
    by (simp add: draw_detections_def Let_def foldl_draw_length)
  have out: "fst (draw_detections lib store img detections color_map) = length store"
    by (simp add: draw_detections_def Let_def)
  have 4: "snd (draw_detections lib st r [] cm) ! i = st ! i" if "i < length st"
    for st :: "'a list" and r cm i
    using that by (simp add: draw_detections_def Let_def nth_append)
  show ?thesis
    using 1 2 3 assms
    by (auto simp: split_beta Let_def 4 len out)
qed

theorem draw_detections_preserves_input_witness:
  "(0::nat) < length [[0, 0, 0 :: nat]] \<and>
   draw_detections
     \<lparr>draw_rectangle = (\<lambda>px box outline fill width. map Suc px),
      draw_text = (\<lambda>px pos label fill. 7 # px),
      format_1f = (\<lambda>q. ''90.0'')\<rparr>
     [[0, 0, 0]] 0
     [\<lparr>det_bbox = (10, 10, 50, 50), det_confidence = 0.9, det_class = ''paint-chip'',
       det_severity = ''minor'', det_estimated_cost = 40\<rparr>] None
   = (1, [[0, 0, 0], [7, 2, 2, 2]]) \<and>
   draw_detections
     \<lparr>draw_rectangle = (\<lambda>px box outline fill width. map Suc px),
      draw_text = (\<lambda>px pos label fill. 7 # px),
      format_1f = (\<lambda>q. ''90.0'')\<rparr>
     [[0, 0, 0]] 0 [] None
   = (1, [[0, 0, 0], [0, 0, 0]])"
proof -
  have h: "(0::nat) < length [[0, 0, 0 :: nat]]" by simp
  note t = draw_detections_preserves_input[OF h, of
     "\<lparr>draw_rectangle = (\<lambda>px box outline fill width. map Suc px),
      draw_text = (\<lambda>px pos label fill. 7 # px),
      format_1f = (\<lambda>q. ''90.0'')\<rparr>"
     "[\<lparr>det_bbox = (10, 10, 50, 50), det_confidence = 0.9, det_class = ''paint-chip'',
       det_severity = ''minor'', det_estimated_cost = 40\<rparr>]" None None]
  show ?thesis
    using t h by (simp add: draw_detections_def draw_one_def Let_def)
qed

end
